theory Spec2Isabelle
  imports Main
begin

section \<open>Go strings and the standard-library calls of the event model\<close>

text \<open>
  A Go \<^verbatim>\<open>string\<close> is a sequence of bytes, so it is modelled by \<^typ>\<open>string\<close>
  (a list of 8-bit characters); \<^verbatim>\<open>len\<close> is \<^const>\<open>length\<close>. A rune is a
  Unicode code point, a natural number here.
\<close>

type_synonym rune = nat

definition RuneError :: rune where
  "RuneError = 0xFFFD"

definition byte :: "char \<Rightarrow> nat" where
  "byte c = of_char c"

text \<open>
  \<^verbatim>\<open>utf8.DecodeRuneInString\<close>: the first rune of \<open>s\<close> and its width in bytes;
  \<open>(RuneError, 0)\<close> on the empty string and \<open>(RuneError, 1)\<close> on an invalid
  encoding. The three local values are the entries of the package's tables
  \<^verbatim>\<open>first\<close> and \<^verbatim>\<open>acceptRanges\<close> for the leading byte.
\<close>

definition DecodeRuneInString :: "string \<Rightarrow> rune \<times> nat" where
  "DecodeRuneInString s =
     (case s of
        [] \<Rightarrow> (RuneError, 0)
      | c0 # _ \<Rightarrow>
          (let s0 = byte c0 in
           if s0 < 0x80 then (s0, 1)
           else if s0 < 0xC2 \<or> 0xF4 < s0 then (RuneError, 1)
           else
             (let sz = (if s0 < 0xE0 then 2 else if s0 < 0xF0 then 3 else (4::nat));
                  lo = (if s0 = 0xE0 then 0xA0 else if s0 = 0xF0 then 0x90 else 0x80);
                  hi = (if s0 = 0xED then 0x9F else if s0 = 0xF4 then 0x8F else 0xBF)
              in if length s < sz then (RuneError, 1)
                 else
                   (let s1 = byte (s ! 1) in
                    if s1 < lo \<or> hi < s1 then (RuneError, 1)
                    else if sz \<le> 2 then ((s0 mod 32) * 64 + s1 mod 64, 2)
                    else
                      (let s2 = byte (s ! 2) in
                       if s2 < 0x80 \<or> 0xBF < s2 then (RuneError, 1)
                       else if sz \<le> 3
                         then ((s0 mod 16) * 4096 + (s1 mod 64) * 64 + s2 mod 64, 3)
                       else
                         (let s3 = byte (s ! 3) in
                          if s3 < 0x80 \<or> 0xBF < s3 then (RuneError, 1)
                          else ((s0 mod 8) * 262144 + (s1 mod 64) * 4096
                                  + (s2 mod 64) * 64 + s3 mod 64, 4)))))))"

text \<open>\<^verbatim>\<open>utf8.RuneStart\<close>: the byte is not a continuation byte.\<close>

definition RuneStart :: "char \<Rightarrow> bool" where
  "RuneStart c = (\<not> (0x80 \<le> byte c \<and> byte c < 0xC0))"

text \<open>
  \<^verbatim>\<open>utf8.DecodeLastRuneInString\<close>: the last rune of \<open>s\<close> and its width. It
  backs up over at most three bytes to the nearest rune start, decodes from there, and
  answers \<open>(RuneError, 1)\<close> unless that rune ends exactly at the end of \<open>s\<close>.
\<close>

fun backUp :: "string \<Rightarrow> nat \<Rightarrow> nat \<Rightarrow> nat" where
  "backUp s lim start =
     (if RuneStart (s ! start) then start
      else if start \<le> lim then start - 1
      else backUp s lim (start - 1))"

declare backUp.simps [simp del]

definition DecodeLastRuneInString :: "string \<Rightarrow> rune \<times> nat" where
  "DecodeLastRuneInString s =
     (let end = length s in
      if end = 0 then (RuneError, 0)
      else if byte (s ! (end - 1)) < 0x80 then (byte (s ! (end - 1)), 1)
      else
        (let lim = end - 4;
             start = (if end = 1 then 0 else backUp s lim (end - 2));
             (r, size) = DecodeRuneInString (drop start s)
         in if start + size \<noteq> end then (RuneError, 1) else (r, size)))"

text \<open>
  \<^verbatim>\<open>unicode.IsSpace\<close>: the Latin-1 cases of its switch, then the ranges of
  the table \<^verbatim>\<open>White_Space\<close> above Latin-1.
\<close>

definition IsSpace :: "rune \<Rightarrow> bool" where
  "IsSpace r =
     (if r \<le> 0xFF then r \<in> {0x09, 0x0A, 0x0B, 0x0C, 0x0D, 0x20, 0x85, 0xA0}
      else r = 0x1680 \<or> (0x2000 \<le> r \<and> r \<le> 0x200A) \<or> r = 0x2028 \<or> r = 0x2029
           \<or> r = 0x202F \<or> r = 0x205F \<or> r = 0x3000)"

text \<open>The table \<^verbatim>\<open>asciiSpace\<close> of package \<^verbatim>\<open>strings\<close>.\<close>

definition asciiSpace :: "char \<Rightarrow> bool" where
  "asciiSpace c = (byte c \<in> {0x09, 0x0A, 0x0B, 0x0C, 0x0D, 0x20})"

lemma DecodeRuneInString_width: "s \<noteq> [] \<Longrightarrow> 0 < snd (DecodeRuneInString s)"
  by (cases s) (simp_all add: DecodeRuneInString_def Let_def)

lemma backUp_le: "backUp s lim start \<le> start"
proof (induction s lim start rule: backUp.induct)
  case (1 s lim start)
  then show ?case
    by (subst backUp.simps) auto
qed

lemma DecodeLastRuneInString_width: "s \<noteq> [] \<Longrightarrow> 0 < snd (DecodeLastRuneInString s)"
proof -
  assume ne: "s \<noteq> []"
  define start where "start = (if length s = 1 then 0 else backUp s (length s - 4) (length s - 2))"
  have "start < length s"
    using ne backUp_le [of s "length s - 4" "length s - 2"]
    by (cases s) (auto simp: start_def)
  then have "0 < snd (DecodeRuneInString (drop start s))"
    by (intro DecodeRuneInString_width) simp
  then show ?thesis
    using ne by (auto simp: DecodeLastRuneInString_def Let_def start_def split: prod.splits)
qed

text \<open>
  \<^verbatim>\<open>strings.TrimLeftFunc\<close>: \<^verbatim>\<open>indexFunc(s, f, false)\<close> ranges over the runes
  of \<open>s\<close> to the first one that \<open>f\<close> rejects and the rest from there is
  returned; the empty string when there is none.
\<close>

function TrimLeftFunc :: "(rune \<Rightarrow> bool) \<Rightarrow> string \<Rightarrow> string" where
  "TrimLeftFunc f s =
     (if s = [] then []
      else if f (fst (DecodeRuneInString s))
        then TrimLeftFunc f (drop (snd (DecodeRuneInString s)) s)
      else s)"
  by pat_completeness auto
termination
  by (relation "measure (\<lambda>(f, s). length s)") (use DecodeRuneInString_width in auto)

declare TrimLeftFunc.simps [simp del]

text \<open>
  \<^verbatim>\<open>lastIndexFunc(s, f, false)\<close>: the byte index of the last rune that \<open>f\<close>
  rejects, \<open>None\<close> for Go's \<open>-1\<close>.
\<close>

function lastIndexFunc :: "(rune \<Rightarrow> bool) \<Rightarrow> string \<Rightarrow> nat option" where
  "lastIndexFunc f s =
     (if s = [] then None
      else
        (let i = length s - snd (DecodeLastRuneInString s) in
         if \<not> f (fst (DecodeLastRuneInString s)) then Some i
         else lastIndexFunc f (take i s)))"
  by pat_completeness auto
termination
  by (relation "measure (\<lambda>(f, s). length s)")
     (use DecodeLastRuneInString_width in \<open>auto simp: Let_def\<close>)

declare lastIndexFunc.simps [simp del]

definition TrimRightFunc :: "(rune \<Rightarrow> bool) \<Rightarrow> string \<Rightarrow> string" where
  "TrimRightFunc f s =
     (case lastIndexFunc f s of
        None \<Rightarrow> take 0 s
      | Some i \<Rightarrow>
          if 0x80 \<le> byte (s ! i) then take (i + snd (DecodeRuneInString (drop i s))) s
          else take (i + 1) s)"

definition TrimFunc :: "(rune \<Rightarrow> bool) \<Rightarrow> string \<Rightarrow> string" where
  "TrimFunc f s = TrimRightFunc f (TrimLeftFunc f s)"

text \<open>
  \<^verbatim>\<open>strings.TrimSpace\<close>. Its first loop skips leading ASCII space and hands over to
  \<^verbatim>\<open>TrimFunc\<close> at the first byte that is not ASCII; its second loop
  (\<open>trimSpaceStop\<close>) does the same from the end with \<^verbatim>\<open>TrimRightFunc\<close>.
\<close>

function trimSpaceStop :: "string \<Rightarrow> string" where
  "trimSpaceStop s =
     (if s = [] then []
      else if 0x80 \<le> byte (last s) then TrimRightFunc IsSpace s
      else if asciiSpace (last s) then trimSpaceStop (butlast s)
      else s)"
  by pat_completeness auto
termination
  by (relation "measure length") auto

declare trimSpaceStop.simps [simp del]

fun TrimSpace :: "string \<Rightarrow> string" where
  "TrimSpace [] = []"
| "TrimSpace (c # s) =
     (if 0x80 \<le> byte c then TrimFunc IsSpace (c # s)
      else if asciiSpace c then TrimSpace s
      else trimSpaceStop (c # s))"

section \<open>The event model (pkg/model/event.go)\<close>

text \<open>
  A \<^verbatim>\<open>time.Time\<close> is an instant, counted in seconds and nanoseconds from
  January 1 of year 1, 00:00:00 UTC, together with a location. \<^verbatim>\<open>IsZero\<close>
  looks at the instant only; \<^verbatim>\<open>UTC\<close> keeps the instant and sets the location.
  The zero value of the type is the zero instant in UTC.
\<close>

datatype Location = UTC | Local | FixedZone string int

record Time =
  sec :: int
  nsec :: nat
  loc :: Location

definition zeroTime :: Time where
  "zeroTime = \<lparr>sec = 0, nsec = 0, loc = UTC\<rparr>"

definition IsZero :: "Time \<Rightarrow> bool" where
  "IsZero t = (sec t = 0 \<and> nsec t = 0)"

definition toUTC :: "Time \<Rightarrow> Time" where
  "toUTC t = t\<lparr>loc := UTC\<rparr>"

text \<open>
  A value of type \<^verbatim>\<open>any\<close> as \<^verbatim>\<open>encoding/json\<close> produces it: nil, a bool,
  a number, a string, a slice or a map with string keys. A number is kept as its
  literal and a map as its list of entries; nothing below looks inside.
\<close>

datatype any = Nil | Bool bool | Number string | String string
  | Slice "any list" | Map "(string \<times> any) list"

text \<open>
  \<^verbatim>\<open>type Event struct { ID, Type, Source string; Timestamp time.Time; Payload any }\<close>
  (event.go writes its import block in braces, which the Go compiler does not accept;
  its declarations are taken as they stand.)
\<close>

record Event =
  ID :: string
  Type :: string
  Source :: string
  Timestamp :: Time
  Payload :: any

text \<open>
  Go error values. \<open>errorString\<close> is what \<^verbatim>\<open>errors.New\<close> returns. The others
  are errors of the standard library: \<^verbatim>\<open>*http.MaxBytesError\<close>, \<^verbatim>\<open>io.EOF\<close>,
  \<^verbatim>\<open>io.ErrUnexpectedEOF\<close>, a \<^verbatim>\<open>*json.SyntaxError\<close> with the byte and the
  context of its message, the error of an unknown field with the key, and a
  \<^verbatim>\<open>*json.UnmarshalTypeError\<close> with its \<^verbatim>\<open>Value\<close> and \<^verbatim>\<open>Type\<close>.
  \<open>phasePanic\<close> stands for the decoder's panic on text its scanner has not accepted.
\<close>

datatype error =
    errorString string
  | MaxBytesError
  | EOF
  | ErrUnexpectedEOF
  | SyntaxError char string
  | UnknownField string
  | UnmarshalTypeError string string
  | phasePanic

text \<open>
  \<^verbatim>\<open>func (e Event) Validate() error\<close>; \<open>None\<close> is Go's \<^verbatim>\<open>nil\<close>.
\<close>

definition Validate :: "Event \<Rightarrow> error option" where
  "Validate e =
     (if TrimSpace (ID e) = [] then Some (errorString ''ID is required.'')
      else if TrimSpace (Type e) = [] then Some (errorString ''Type is required.'')
      else if TrimSpace (Source e) = [] then Some (errorString ''Source is required.'')
      else None)"

section \<open>The JSON scanner of encoding/json\<close>

text \<open>
  The handler reads the request body through \<^verbatim>\<open>json.Decoder\<close>, whose scanner is a
  state machine fed one byte at a time. \<open>stepfn\<close> names the function held in the
  scanner's field \<^verbatim>\<open>step\<close>; the functions below are those of scanner.go, each
  returning the opcode and the scanner it leaves. The top of \<^verbatim>\<open>parseState\<close> is the
  head of the list.
\<close>

datatype stepfn =
    BeginValueOrEmpty | BeginValue | BeginStringOrEmpty | BeginString | EndValue | EndTop
  | InString | InStringEsc | InStringEscU | InStringEscU1 | InStringEscU12 | InStringEscU123
  | Neg | Digit1 | Digit0 | Dot | Dot0 | Exp | ExpSign | Exp0
  | LitT | LitTr | LitTru | LitF | LitFa | LitFal | LitFals | LitN | LitNu | LitNul
  | Error

datatype opcode =
    scanContinue | scanBeginLiteral | scanBeginObject | scanObjectKey | scanObjectValue
  | scanEndObject | scanBeginArray | scanArrayValue | scanEndArray | scanSkipSpace
  | scanEnd | scanError

datatype parse = parseObjectKey | parseObjectValue | parseArrayValue

record scanner =
  step :: stepfn
  parseState :: "parse list"
  err :: "error option"
  endTop :: bool

definition reset :: scanner where
  "reset = \<lparr>step = BeginValue, parseState = [], err = None, endTop = False\<rparr>"

definition maxNestingDepth :: nat where
  "maxNestingDepth = 10000"

definition isSpace :: "char \<Rightarrow> bool" where
  "isSpace c = (c = CHR 0x20 \<or> c = CHR 0x09 \<or> c = CHR 0x0D \<or> c = CHR 0x0A)"

definition scan_error :: "scanner \<Rightarrow> char \<Rightarrow> string \<Rightarrow> opcode \<times> scanner" where
  "scan_error s c context = (scanError, s\<lparr>step := Error, err := Some (SyntaxError c context)\<rparr>)"

definition pushParseState :: "scanner \<Rightarrow> char \<Rightarrow> parse \<Rightarrow> opcode \<Rightarrow> opcode \<times> scanner" where
  "pushParseState s c newParseState successState =
     (let s' = s\<lparr>parseState := newParseState # parseState s\<rparr> in
      if length (parseState s') \<le> maxNestingDepth then (successState, s')
      else scan_error s' c ''exceeded max depth'')"

definition popParseState :: "scanner \<Rightarrow> scanner" where
  "popParseState s =
     (let rest = tl (parseState s) in
      if rest = [] then s\<lparr>parseState := rest, step := EndTop, endTop := True\<rparr>
      else s\<lparr>parseState := rest, step := EndValue\<rparr>)"

definition stateEndTop :: "scanner \<Rightarrow> char \<Rightarrow> opcode \<times> scanner" where
  "stateEndTop s c =
     (if \<not> isSpace c then (scanEnd, snd (scan_error s c ''after top-level value''))
      else (scanEnd, s))"

definition stateEndValue :: "scanner \<Rightarrow> char \<Rightarrow> opcode \<times> scanner" where
  "stateEndValue s c =
     (case parseState s of
        [] \<Rightarrow> stateEndTop (s\<lparr>step := EndTop, endTop := True\<rparr>) c
      | ps # rest \<Rightarrow>
          if isSpace c then (scanSkipSpace, s\<lparr>step := EndValue\<rparr>)
          else
            (case ps of
               parseObjectKey \<Rightarrow>
                 if c = CHR '':''
                   then (scanObjectKey, s\<lparr>parseState := parseObjectValue # rest, step := BeginValue\<rparr>)
                 else scan_error s c ''after object key''
             | parseObjectValue \<Rightarrow>
                 if c = CHR '',''
                   then (scanObjectValue, s\<lparr>parseState := parseObjectKey # rest, step := BeginString\<rparr>)
                 else if c = CHR ''}'' then (scanEndObject, popParseState s)
                 else scan_error s c ''after object key:value pair''
             | parseArrayValue \<Rightarrow>
                 if c = CHR '','' then (scanArrayValue, s\<lparr>step := BeginValue\<rparr>)
                 else if c = CHR '']'' then (scanEndArray, popParseState s)
                 else scan_error s c ''after array element''))"

definition stateBeginValue :: "scanner \<Rightarrow> char \<Rightarrow> opcode \<times> scanner" where
  "stateBeginValue s c =
     (if isSpace c then (scanSkipSpace, s)
      else if c = CHR ''{'' then pushParseState (s\<lparr>step := BeginStringOrEmpty\<rparr>) c parseObjectKey scanBeginObject
      else if c = CHR ''['' then pushParseState (s\<lparr>step := BeginValueOrEmpty\<rparr>) c parseArrayValue scanBeginArray
      else if c = CHR 0x22 then (scanBeginLiteral, s\<lparr>step := InString\<rparr>)
      else if c = CHR ''-'' then (scanBeginLiteral, s\<lparr>step := Neg\<rparr>)
      else if c = CHR ''0'' then (scanBeginLiteral, s\<lparr>step := Digit0\<rparr>)
      else if c = CHR ''t'' then (scanBeginLiteral, s\<lparr>step := LitT\<rparr>)
      else if c = CHR ''f'' then (scanBeginLiteral, s\<lparr>step := LitF\<rparr>)
      else if c = CHR ''n'' then (scanBeginLiteral, s\<lparr>step := LitN\<rparr>)
      else if 0x31 \<le> byte c \<and> byte c \<le> 0x39 then (scanBeginLiteral, s\<lparr>step := Digit1\<rparr>)
      else scan_error s c ''looking for beginning of value'')"

definition stateBeginValueOrEmpty :: "scanner \<Rightarrow> char \<Rightarrow> opcode \<times> scanner" where
  "stateBeginValueOrEmpty s c =
     (if isSpace c then (scanSkipSpace, s)
      else if c = CHR '']'' then stateEndValue s c
      else stateBeginValue s c)"

definition stateBeginString :: "scanner \<Rightarrow> char \<Rightarrow> opcode \<times> scanner" where
  "stateBeginString s c =
     (if isSpace c then (scanSkipSpace, s)
      else if c = CHR 0x22 then (scanBeginLiteral, s\<lparr>step := InString\<rparr>)
      else scan_error s c ''looking for beginning of object key string'')"

definition stateBeginStringOrEmpty :: "scanner \<Rightarrow> char \<Rightarrow> opcode \<times> scanner" where
  "stateBeginStringOrEmpty s c =
     (if isSpace c then (scanSkipSpace, s)
      else if c = CHR ''}''
        then stateEndValue (s\<lparr>parseState := parseObjectValue # tl (parseState s)\<rparr>) c
      else stateBeginString s c)"

definition stateInString :: "scanner \<Rightarrow> char \<Rightarrow> opcode \<times> scanner" where
  "stateInString s c =
     (if c = CHR 0x22 then (scanContinue, s\<lparr>step := EndValue\<rparr>)
      else if c = CHR 0x5C then (scanContinue, s\<lparr>step := InStringEsc\<rparr>)
      else if byte c < 0x20 then scan_error s c ''in string literal''
      else (scanContinue, s))"

definition stateInStringEsc :: "scanner \<Rightarrow> char \<Rightarrow> opcode \<times> scanner" where
  "stateInStringEsc s c =
     (if c \<in> {CHR ''b'', CHR ''f'', CHR ''n'', CHR ''r'', CHR ''t'', CHR 0x5C, CHR ''/'', CHR 0x22}
        then (scanContinue, s\<lparr>step := InString\<rparr>)
      else if c = CHR ''u'' then (scanContinue, s\<lparr>step := InStringEscU\<rparr>)
      else scan_error s c ''in string escape code'')"

definition isHex :: "char \<Rightarrow> bool" where
  "isHex c = ((0x30 \<le> byte c \<and> byte c \<le> 0x39) \<or> (0x61 \<le> byte c \<and> byte c \<le> 0x66)
              \<or> (0x41 \<le> byte c \<and> byte c \<le> 0x46))"

definition isDigit :: "char \<Rightarrow> bool" where
  "isDigit c = (0x30 \<le> byte c \<and> byte c \<le> 0x39)"

text \<open>The four states after \<^verbatim>\<open>\u\<close>, which differ in the state they move to.\<close>

definition stateInStringEscU :: "stepfn \<Rightarrow> scanner \<Rightarrow> char \<Rightarrow> opcode \<times> scanner" where
  "stateInStringEscU next s c =
     (if isHex c then (scanContinue, s\<lparr>step := next\<rparr>)
      else scan_error s c (''in '' @ [CHR 0x5C] @ ''u hexadecimal character escape''))"

definition stateNeg :: "scanner \<Rightarrow> char \<Rightarrow> opcode \<times> scanner" where
  "stateNeg s c =
     (if c = CHR ''0'' then (scanContinue, s\<lparr>step := Digit0\<rparr>)
      else if 0x31 \<le> byte c \<and> byte c \<le> 0x39 then (scanContinue, s\<lparr>step := Digit1\<rparr>)
      else scan_error s c ''in numeric literal'')"

definition stateE0 :: "scanner \<Rightarrow> char \<Rightarrow> opcode \<times> scanner" where
  "stateE0 s c = (if isDigit c then (scanContinue, s) else stateEndValue s c)"

definition stateESign :: "scanner \<Rightarrow> char \<Rightarrow> opcode \<times> scanner" where
  "stateESign s c =
     (if isDigit c then (scanContinue, s\<lparr>step := Exp0\<rparr>)
      else scan_error s c ''in exponent of numeric literal'')"

definition stateE :: "scanner \<Rightarrow> char \<Rightarrow> opcode \<times> scanner" where
  "stateE s c =
     (if c = CHR ''+'' \<or> c = CHR ''-'' then (scanContinue, s\<lparr>step := ExpSign\<rparr>)
      else stateESign s c)"

definition stateDot0 :: "scanner \<Rightarrow> char \<Rightarrow> opcode \<times> scanner" where
  "stateDot0 s c =
     (if isDigit c then (scanContinue, s)
      else if c = CHR ''e'' \<or> c = CHR ''E'' then (scanContinue, s\<lparr>step := Exp\<rparr>)
      else stateEndValue s c)"

definition stateDot :: "scanner \<Rightarrow> char \<Rightarrow> opcode \<times> scanner" where
  "stateDot s c =
     (if isDigit c then (scanContinue, s\<lparr>step := Dot0\<rparr>)
      else scan_error s c ''after decimal point in numeric literal'')"

definition state0 :: "scanner \<Rightarrow> char \<Rightarrow> opcode \<times> scanner" where
  "state0 s c =
     (if c = CHR ''.'' then (scanContinue, s\<lparr>step := Dot\<rparr>)
      else if c = CHR ''e'' \<or> c = CHR ''E'' then (scanContinue, s\<lparr>step := Exp\<rparr>)
      else stateEndValue s c)"

definition state1 :: "scanner \<Rightarrow> char \<Rightarrow> opcode \<times> scanner" where
  "state1 s c = (if isDigit c then (scanContinue, s\<lparr>step := Digit1\<rparr>) else state0 s c)"

text \<open>
  The states inside \<^verbatim>\<open>true\<close>, \<^verbatim>\<open>false\<close> and \<^verbatim>\<open>null\<close>: each expects one
  letter, moves on, and names the literal and the letter in its error.
\<close>

definition stateLit :: "string \<Rightarrow> char \<Rightarrow> stepfn \<Rightarrow> scanner \<Rightarrow> char \<Rightarrow> opcode \<times> scanner" where
  "stateLit lit want next s c =
     (if c = want then (scanContinue, s\<lparr>step := next\<rparr>)
      else scan_error s c (''in literal '' @ lit @ '' (expecting '' @ [CHR 0x27, want, CHR 0x27] @ '')''))"

text \<open>\<^verbatim>\<open>s.step(s, c)\<close>: the call through the field \<^verbatim>\<open>step\<close>.\<close>

definition call :: "scanner \<Rightarrow> char \<Rightarrow> opcode \<times> scanner" where
  "call s c =
     (case step s of
        BeginValueOrEmpty \<Rightarrow> stateBeginValueOrEmpty s c
      | BeginValue \<Rightarrow> stateBeginValue s c
      | BeginStringOrEmpty \<Rightarrow> stateBeginStringOrEmpty s c
      | BeginString \<Rightarrow> stateBeginString s c
      | EndValue \<Rightarrow> stateEndValue s c
      | EndTop \<Rightarrow> stateEndTop s c
      | InString \<Rightarrow> stateInString s c
      | InStringEsc \<Rightarrow> stateInStringEsc s c
      | InStringEscU \<Rightarrow> stateInStringEscU InStringEscU1 s c
      | InStringEscU1 \<Rightarrow> stateInStringEscU InStringEscU12 s c
      | InStringEscU12 \<Rightarrow> stateInStringEscU InStringEscU123 s c
      | InStringEscU123 \<Rightarrow> stateInStringEscU InString s c
      | Neg \<Rightarrow> stateNeg s c
      | Digit1 \<Rightarrow> state1 s c
      | Digit0 \<Rightarrow> state0 s c
      | Dot \<Rightarrow> stateDot s c
      | Dot0 \<Rightarrow> stateDot0 s c
      | Exp \<Rightarrow> stateE s c
      | ExpSign \<Rightarrow> stateESign s c
      | Exp0 \<Rightarrow> stateE0 s c
      | LitT \<Rightarrow> stateLit ''true'' (CHR ''r'') LitTr s c
      | LitTr \<Rightarrow> stateLit ''true'' (CHR ''u'') LitTru s c
      | LitTru \<Rightarrow> stateLit ''true'' (CHR ''e'') EndValue s c
      | LitF \<Rightarrow> stateLit ''false'' (CHR ''a'') LitFa s c
      | LitFa \<Rightarrow> stateLit ''false'' (CHR ''l'') LitFal s c
      | LitFal \<Rightarrow> stateLit ''false'' (CHR ''s'') LitFals s c
      | LitFals \<Rightarrow> stateLit ''false'' (CHR ''e'') EndValue s c
      | LitN \<Rightarrow> stateLit ''null'' (CHR ''u'') LitNu s c
      | LitNu \<Rightarrow> stateLit ''null'' (CHR ''l'') LitNul s c
      | LitNul \<Rightarrow> stateLit ''null'' (CHR ''l'') EndValue s c
      | Error \<Rightarrow> (scanError, s))"

section \<open>Reading one JSON value from the limited body\<close>

text \<open>
  \<^verbatim>\<open>http.MaxBytesReader(w, r.Body, n)\<close> hands out the first \<open>n\<close> bytes of the body
  and then ends: with \<^verbatim>\<open>io.EOF\<close> if the body has no more than \<open>n\<close> bytes, with
  a \<^verbatim>\<open>*MaxBytesError\<close> if it has more. The decoder's buffer is filled from this
  reader in pieces; what it finds depends on the bytes handed out and on the way the
  reader ends, not on the pieces, so the reader is modelled by these two.
\<close>

datatype ending = AtEOF | TooLarge

record reader =
  pending :: string
  ending :: ending

definition MaxBytesReader :: "string \<Rightarrow> nat \<Rightarrow> reader" where
  "MaxBytesReader body n =
     \<lparr>pending = take n body, ending = (if n < length body then TooLarge else AtEOF)\<rparr>"

text \<open>
  The result of the loop of \<^verbatim>\<open>Decoder.readValue\<close> over the bytes at hand: either it
  returns (the length of the value and an error or none), or the bytes are used up and
  the reader is asked for more.
\<close>

datatype progress = Return nat "error option" | Refill scanner

fun scanBuf :: "scanner \<Rightarrow> nat \<Rightarrow> string \<Rightarrow> progress" where
  "scanBuf s scanp [] = Refill s"
| "scanBuf s scanp (c # buf) =
     (case call s c of
        (scanEnd, s') \<Rightarrow> Return scanp None
      | (scanEndObject, s') \<Rightarrow>
          (case stateEndValue s' (CHR 0x20) of
             (scanEnd, s'') \<Rightarrow> Return (Suc scanp) None
           | (_, s'') \<Rightarrow> scanBuf s'' (Suc scanp) buf)
      | (scanEndArray, s') \<Rightarrow>
          (case stateEndValue s' (CHR 0x20) of
             (scanEnd, s'') \<Rightarrow> Return (Suc scanp) None
           | (_, s'') \<Rightarrow> scanBuf s'' (Suc scanp) buf)
      | (scanError, s') \<Rightarrow> Return 0 (err s')
      | (_, s') \<Rightarrow> scanBuf s' (Suc scanp) buf)"

definition nonSpace :: "string \<Rightarrow> bool" where
  "nonSpace b = (\<exists>c \<in> set b. \<not> isSpace c)"

text \<open>
  \<^verbatim>\<open>Decoder.readValue\<close>. When the bytes are used up, the error of the last read
  decides: at \<^verbatim>\<open>io.EOF\<close> a final space is fed to the scanner, which ends a
  top-level number, string or literal, and otherwise the error is
  \<^verbatim>\<open>io.ErrUnexpectedEOF\<close>, or \<^verbatim>\<open>io.EOF\<close> for a body of white space only; any
  other read error, here that of the size limit, is returned as it is.
\<close>

definition readValue :: "reader \<Rightarrow> nat \<times> error option" where
  "readValue r =
     (case scanBuf reset 0 (pending r) of
        Return n e \<Rightarrow> (n, e)
      | Refill s \<Rightarrow>
          (case ending r of
             AtEOF \<Rightarrow>
               if fst (call s (CHR 0x20)) = scanEnd then (length (pending r), None)
               else if nonSpace (pending r) then (0, Some ErrUnexpectedEOF)
               else (0, Some EOF)
           | TooLarge \<Rightarrow> (0, Some MaxBytesError)))"

section \<open>Decoding the value into an Event\<close>

text \<open>
  \<^verbatim>\<open>utf8.EncodeRune\<close>, \<^verbatim>\<open>getu4\<close> and \<^verbatim>\<open>unquoteBytes\<close> of encoding/json, which
  turn the text of a JSON string, quotes included, into the Go string it denotes.
\<close>

definition EncodeRune :: "rune \<Rightarrow> string" where
  "EncodeRune r =
     (if r \<le> 0x7F then [char_of r]
      else if r \<le> 0x7FF then [char_of (0xC0 + r div 64), char_of (0x80 + r mod 64)]
      else
        (let r' = (if 0x10FFFF < r \<or> (0xD800 \<le> r \<and> r \<le> 0xDFFF) then RuneError else r) in
         if r' \<le> 0xFFFF
           then [char_of (0xE0 + r' div 4096), char_of (0x80 + (r' div 64) mod 64),
                 char_of (0x80 + r' mod 64)]
         else [char_of (0xF0 + r' div 262144), char_of (0x80 + (r' div 4096) mod 64),
               char_of (0x80 + (r' div 64) mod 64), char_of (0x80 + r' mod 64)]))"

definition hexval :: "char \<Rightarrow> nat option" where
  "hexval c =
     (if 0x30 \<le> byte c \<and> byte c \<le> 0x39 then Some (byte c - 0x30)
      else if 0x61 \<le> byte c \<and> byte c \<le> 0x66 then Some (byte c - 0x61 + 10)
      else if 0x41 \<le> byte c \<and> byte c \<le> 0x46 then Some (byte c - 0x41 + 10)
      else None)"

definition getu4 :: "string \<Rightarrow> rune option" where
  "getu4 s =
     (case s of
        b # u # h1 # h2 # h3 # h4 # _ \<Rightarrow>
          if b = CHR 0x5C \<and> u = CHR ''u'' then
            (case (hexval h1, hexval h2, hexval h3, hexval h4) of
               (Some a, Some b, Some c, Some d) \<Rightarrow> Some (((a * 16 + b) * 16 + c) * 16 + d)
             | _ \<Rightarrow> None)
          else None
      | _ \<Rightarrow> None)"

definition IsSurrogate :: "rune \<Rightarrow> bool" where
  "IsSurrogate r = (0xD800 \<le> r \<and> r < 0xE000)"

text \<open>\<^verbatim>\<open>utf16.DecodeRune\<close>; \<open>None\<close> for the rune of a failed \<^verbatim>\<open>getu4\<close>.\<close>

definition utf16_DecodeRune :: "rune \<Rightarrow> rune option \<Rightarrow> rune" where
  "utf16_DecodeRune r1 r2 =
     (case r2 of
        None \<Rightarrow> RuneError
      | Some r2 \<Rightarrow>
          if 0xD800 \<le> r1 \<and> r1 < 0xDC00 \<and> 0xDC00 \<le> r2 \<and> r2 < 0xE000
            then (r1 - 0xD800) * 1024 + (r2 - 0xDC00) + 0x10000
          else RuneError)"

function unquoteLoop :: "string \<Rightarrow> string option" where
  "unquoteLoop s =
     (case s of
        [] \<Rightarrow> Some []
      | c # cs \<Rightarrow>
          if c = CHR 0x5C then
            (case cs of
               [] \<Rightarrow> None
             | e # cs' \<Rightarrow>
                 if e = CHR 0x22 \<or> e = CHR 0x5C \<or> e = CHR ''/'' \<or> e = CHR 0x27
                   then map_option ((#) e) (unquoteLoop cs')
                 else if e = CHR ''b'' then map_option ((#) (CHR 0x08)) (unquoteLoop cs')
                 else if e = CHR ''f'' then map_option ((#) (CHR 0x0C)) (unquoteLoop cs')
                 else if e = CHR ''n'' then map_option ((#) (CHR 0x0A)) (unquoteLoop cs')
                 else if e = CHR ''r'' then map_option ((#) (CHR 0x0D)) (unquoteLoop cs')
                 else if e = CHR ''t'' then map_option ((#) (CHR 0x09)) (unquoteLoop cs')
                 else if e = CHR ''u'' then
                   (case getu4 s of
                      None \<Rightarrow> None
                    | Some rr \<Rightarrow>
                        if IsSurrogate rr
                             \<and> utf16_DecodeRune rr (getu4 (drop 6 s)) \<noteq> RuneError
                          then map_option ((@) (EncodeRune (utf16_DecodeRune rr (getu4 (drop 6 s)))))
                                 (unquoteLoop (drop 12 s))
                        else if IsSurrogate rr
                          then map_option ((@) (EncodeRune RuneError)) (unquoteLoop (drop 6 s))
                        else map_option ((@) (EncodeRune rr)) (unquoteLoop (drop 6 s)))
                 else None)
          else if c = CHR 0x22 \<or> byte c < 0x20 then None
          else if byte c < 0x80 then map_option ((#) c) (unquoteLoop cs)
          else map_option ((@) (EncodeRune (fst (DecodeRuneInString s))))
                 (unquoteLoop (drop (snd (DecodeRuneInString s)) s)))"
  by pat_completeness auto
termination
  by (relation "measure length") (use DecodeRuneInString_width in auto)

declare unquoteLoop.simps [simp del]

definition unquoteBytes :: "string \<Rightarrow> string option" where
  "unquoteBytes s =
     (if length s < 2 \<or> hd s \<noteq> CHR 0x22 \<or> last s \<noteq> CHR 0x22 then None
      else unquoteLoop (butlast (tl s)))"

text \<open>
  The struct declaration with its tags, one entry per Go field, in the order of the
  source. In the source every one of the five tags is \<^verbatim>\<open>json:"id"\<close>.
\<close>

datatype field = Field_ID | Field_Type | Field_Source | Field_Timestamp | Field_Payload

definition Event_tags :: "(field \<times> string) list" where
  "Event_tags =
     [(Field_ID, ''id''), (Field_Type, ''id''), (Field_Source, ''id''),
      (Field_Timestamp, ''id''), (Field_Payload, ''id'')]"

text \<open>
  \<^verbatim>\<open>typeFields\<close> of encoding/json, for a struct without embedded fields whose fields
  are all exported and tagged with a name: the fields are grouped by JSON name, a name
  that one field carries selects that field, and for a name that several fields carry
  \<^verbatim>\<open>dominantField\<close> finds them at the same depth and all tagged, so that none of
  them is selected ("all are ignored; no error occurs", as the package documentation has
  it).
\<close>

definition typeFields :: "(field \<times> string) list \<Rightarrow> (field \<times> string) list" where
  "typeFields fs = filter (\<lambda>(f, name). length (filter (\<lambda>(g, other). other = name) fs) = 1) fs"

text \<open>
  What the handler takes from the Go runtime and library without this development
  defining it: the wall clock, \<^verbatim>\<open>strconv.Quote\<close> (the verb \<^verbatim>\<open>%q\<close> of error
  messages), \<^verbatim>\<open>foldName\<close> (the case folding of encoding/json, built on the Unicode
  tables) and \<open>Store\<close>, the assignment by reflection of the JSON text of a value to a
  struct field (\<^verbatim>\<open>d.value(subv)\<close>): \<open>Inl\<close> when it makes the decoder stop with an
  error, else the event with the field set and the error to be saved, if any.
\<close>

record stdlib =
  Now :: Time
  Quote :: "string \<Rightarrow> string"
  foldName :: "string \<Rightarrow> string"
  Store :: "field \<Rightarrow> string \<Rightarrow> Event \<Rightarrow> error + (Event \<times> error option)"

text \<open>
  The members of the object whose text follows its opening brace, in order, each as the
  text of its key and the text of its value. The decoder walks the text with its
  scanner a second time; on text that \<open>readValue\<close> has accepted, tracking strings,
  escapes and the nesting depth finds the same pieces.
\<close>

fun members :: "nat \<Rightarrow> bool \<Rightarrow> bool \<Rightarrow> bool \<Rightarrow> string \<Rightarrow> string \<Rightarrow> string \<Rightarrow> (string \<times> string) list" where
  "members depth instr esc inkey k v [] = []"
| "members depth instr esc inkey k v (c # cs) =
     (if instr then
        members depth (esc \<or> c \<noteq> CHR 0x22) (\<not> esc \<and> c = CHR 0x5C) inkey
          (if inkey then k @ [c] else k) (if inkey then v else v @ [c]) cs
      else if c = CHR 0x22 then
        members depth True False inkey
          (if inkey then k @ [c] else k) (if inkey then v else v @ [c]) cs
      else if depth = 0 \<and> inkey \<and> c = CHR '':'' then members 0 False False False k v cs
      else if depth = 0 \<and> \<not> inkey \<and> c = CHR '','' then (k, v) # members 0 False False True [] [] cs
      else if depth = 0 \<and> c = CHR ''}'' then (if inkey then [] else [(k, v)])
      else if inkey \<or> (depth = 0 \<and> isSpace c) then members depth False False inkey k v cs
      else if c = CHR ''{'' \<or> c = CHR ''['' then members (Suc depth) False False inkey k (v @ [c]) cs
      else if c = CHR ''}'' \<or> c = CHR '']'' then members (depth - 1) False False inkey k (v @ [c]) cs
      else members depth False False inkey k (v @ [c]) cs)"

text \<open>
  The field for a key: \<^verbatim>\<open>fields.byExactName[key]\<close>, and failing that
  \<^verbatim>\<open>fields.byFoldedName[foldName(key)]\<close>, where the first field in index order wins.
\<close>

definition lookupField :: "stdlib \<Rightarrow> (field \<times> string) list \<Rightarrow> string \<Rightarrow> field option" where
  "lookupField rt fs key =
     (case find (\<lambda>(f, name). name = key) fs of
        Some (f, name) \<Rightarrow> Some f
      | None \<Rightarrow>
          (case find (\<lambda>(f, name). foldName rt name = foldName rt key) fs of
             Some (f, name) \<Rightarrow> Some f
           | None \<Rightarrow> None))"

text \<open>\<^verbatim>\<open>d.saveError\<close> keeps the first error.\<close>

definition saveError :: "error option \<Rightarrow> error option \<Rightarrow> error option" where
  "saveError saved e = (case saved of None \<Rightarrow> e | Some first \<Rightarrow> Some first)"

text \<open>
  \<^verbatim>\<open>d.object(v)\<close> for a struct, with \<^verbatim>\<open>DisallowUnknownFields\<close> set as the handler
  sets it: a key that names a field has its value stored, any other key saves the error
  of an unknown field and its value is skipped.
\<close>

fun object :: "stdlib \<Rightarrow> (field \<times> string) list \<Rightarrow> (string \<times> string) list \<Rightarrow> Event
                 \<Rightarrow> error option \<Rightarrow> error + (Event \<times> error option)" where
  "object rt fs [] evt saved = Inr (evt, saved)"
| "object rt fs ((item, val) # rest) evt saved =
     (case unquoteBytes item of
        None \<Rightarrow> Inl phasePanic
      | Some key \<Rightarrow>
          (case lookupField rt fs key of
             Some f \<Rightarrow>
               (case Store rt f val evt of
                  Inl e \<Rightarrow> Inl e
                | Inr (evt', e) \<Rightarrow> object rt fs rest evt' (saveError saved e))
           | None \<Rightarrow> object rt fs rest evt (saveError saved (Some (UnknownField key)))))"

text \<open>
  \<^verbatim>\<open>d.unmarshal(&evt)\<close> on the text of one value: an object goes to \<open>object\<close>,
  \<^verbatim>\<open>null\<close> leaves the struct as it is, and an array, a string, a bool or a number
  cannot be stored in a struct. The result is the event and the saved error.
\<close>

definition unmarshal :: "stdlib \<Rightarrow> (field \<times> string) list \<Rightarrow> string \<Rightarrow> Event \<Rightarrow> error + (Event \<times> error option)" where
  "unmarshal rt fs text evt =
     (case dropWhile isSpace text of
        [] \<Rightarrow> Inl phasePanic
      | c # cs \<Rightarrow>
          if c = CHR ''{'' then object rt fs (members 0 False False True [] [] cs) evt None
          else if c = CHR ''['' then Inr (evt, Some (UnmarshalTypeError ''array'' ''model.Event''))
          else if c = CHR ''n'' then Inr (evt, None)
          else if c = CHR ''t'' \<or> c = CHR ''f''
            then Inr (evt, Some (UnmarshalTypeError ''bool'' ''model.Event''))
          else if c = CHR 0x22 then Inr (evt, Some (UnmarshalTypeError ''string'' ''model.Event''))
          else Inr (evt, Some (UnmarshalTypeError ''number'' ''model.Event'')))"

text \<open>The zero value of \<^verbatim>\<open>model.Event\<close>, as \<^verbatim>\<open>var evt model.Event\<close> declares it.\<close>

definition zeroEvent :: Event where
  "zeroEvent = \<lparr>ID = [], Type = [], Source = [], Timestamp = zeroTime, Payload = Nil\<rparr>"

text \<open>
  \<^verbatim>\<open>dec.Decode(&evt)\<close> on a fresh decoder and the zero event: the error, or the event
  and the decoder, which is left with the bytes after the value.
\<close>

definition Decode :: "stdlib \<Rightarrow> reader \<Rightarrow> error + (Event \<times> reader)" where
  "Decode rt r =
     (case readValue r of
        (n, Some e) \<Rightarrow> Inl e
      | (n, None) \<Rightarrow>
          (case unmarshal rt (typeFields Event_tags) (take n (pending r)) zeroEvent of
             Inl e \<Rightarrow> Inl e
           | Inr (evt, Some e) \<Rightarrow> Inl e
           | Inr (evt, None) \<Rightarrow> Inr (evt, r\<lparr>pending := drop n (pending r)\<rparr>)))"

text \<open>
  \<^verbatim>\<open>dec.More()\<close>: the next byte that is not white space exists and is neither
  \<^verbatim>\<open>]\<close> nor \<^verbatim>\<open>}\<close>; when the reader ends first, with whatever error, the answer is
  false.
\<close>

definition More :: "reader \<Rightarrow> bool" where
  "More dec =
     (case dropWhile isSpace (pending dec) of
        [] \<Rightarrow> False
      | c # cs \<Rightarrow> c \<noteq> CHR '']'' \<and> c \<noteq> CHR ''}'')"

section \<open>The handler (internal/handler/event_handler.go)\<close>

text \<open>\<^verbatim>\<open>err.Error()\<close>, with \<^verbatim>\<open>quoteChar\<close> of encoding/json for a syntax error.\<close>

definition quoteChar :: "stdlib \<Rightarrow> char \<Rightarrow> string" where
  "quoteChar rt c =
     (if c = CHR 0x27 then [CHR 0x27, CHR 0x5C, CHR 0x27, CHR 0x27]
      else if c = CHR 0x22 then [CHR 0x27, CHR 0x22, CHR 0x27]
      else [CHR 0x27] @ butlast (tl (Quote rt (EncodeRune (byte c)))) @ [CHR 0x27])"

definition Error_text :: "stdlib \<Rightarrow> error \<Rightarrow> string" where
  "Error_text rt e =
     (case e of
        errorString text \<Rightarrow> text
      | MaxBytesError \<Rightarrow> ''http: request body too large''
      | EOF \<Rightarrow> ''EOF''
      | ErrUnexpectedEOF \<Rightarrow> ''unexpected EOF''
      | SyntaxError c context \<Rightarrow> ''invalid character '' @ quoteChar rt c @ '' '' @ context
      | UnknownField key \<Rightarrow> ''json: unknown field '' @ Quote rt key
      | UnmarshalTypeError v t \<Rightarrow> ''json: cannot unmarshal '' @ v @ '' into Go value of type '' @ t
      | phasePanic \<Rightarrow> ''JSON decoder out of sync - data changing underfoot?'')"

text \<open>
  What a handler leaves in its \<^verbatim>\<open>http.ResponseWriter\<close>: the header entries it set,
  the status code and what it wrote. \<open>Encoded m\<close> is what
  \<^verbatim>\<open>json.NewEncoder(w).Encode(m)\<close> writes for the map of strings \<open>m\<close>, a JSON
  object with the entries of \<open>m\<close> in the order of their keys.
\<close>

datatype written = Bytes string | Encoded "(string \<times> string) list"

record Response =
  Header :: "(string \<times> string) list"
  StatusCode :: nat
  Written :: written

definition StatusOK :: nat where "StatusOK = 200"
definition StatusAccepted :: nat where "StatusAccepted = 202"
definition StatusBadRequest :: nat where "StatusBadRequest = 400"
definition StatusRequestEntityTooLarge :: nat where "StatusRequestEntityTooLarge = 413"

text \<open>
  The handler's logger, by the lines printed so far; a line is the format of
  \<^verbatim>\<open>Printf\<close> with its arguments, a timestamp argument being the time that
  \<^verbatim>\<open>Format(time.RFC3339)\<close> renders.
\<close>

datatype arg = Str string | RFC3339 Time

datatype line = Printf string "arg list"

record EventHandler =
  Logger :: "line list"

text \<open>\<^verbatim>\<open>func httpError(w http.ResponseWriter, status int, message string, err error)\<close>\<close>

definition httpError :: "stdlib \<Rightarrow> nat \<Rightarrow> string \<Rightarrow> error \<Rightarrow> Response" where
  "httpError rt status message e =
     \<lparr>Header = [(''Content-Type'', ''application/json'')],
      StatusCode = status,
      Written = Encoded [(''details'', Error_text rt e), (''error'', message)]\<rparr>"

text \<open>\<^verbatim>\<open>func (h *EventHandler) handleHealth(w http.ResponseWriter, r *http.Request)\<close>\<close>

definition handleHealth :: "EventHandler \<Rightarrow> string \<Rightarrow> Response \<times> EventHandler" where
  "handleHealth h body = (\<lparr>Header = [], StatusCode = StatusOK, Written = Bytes ''ok''\<rparr>, h)"

text \<open>
  The part of \<^verbatim>\<open>handlePostEvent\<close> after decoding: the default of the timestamp,
  validation, the log line and the reply.
\<close>

definition defaultTimestamp :: "stdlib \<Rightarrow> Event \<Rightarrow> Event" where
  "defaultTimestamp rt evt =
     (if IsZero (Timestamp evt) then evt\<lparr>Timestamp := toUTC (Now rt)\<rparr> else evt)"

definition respond :: "stdlib \<Rightarrow> EventHandler \<Rightarrow> Event \<Rightarrow> Response \<times> EventHandler" where
  "respond rt h evt0 =
     (let evt = defaultTimestamp rt evt0 in
      case Validate evt of
        Some e \<Rightarrow> (httpError rt StatusBadRequest ''validation failed'' e, h)
      | None \<Rightarrow>
          (\<lparr>Header = [(''Content-Type'', ''application/json'')],
            StatusCode = StatusAccepted,
            Written = Encoded [(''id'', ID evt), (''status'', ''accepted'')]\<rparr>,
           h\<lparr>Logger := Logger h @
               [Printf ''event accepted: id=%s type=%s source=%s ts=%s''
                  [Str (ID evt), Str (Type evt), Str (Source evt), RFC3339 (Timestamp evt)]]\<rparr>))"

text \<open>
  \<^verbatim>\<open>func (h *EventHandler) handlePostEvent(w http.ResponseWriter, r *http.Request)\<close>,
  on the bytes of the request body.
\<close>

definition handlePostEvent :: "stdlib \<Rightarrow> EventHandler \<Rightarrow> string \<Rightarrow> Response \<times> EventHandler" where
  "handlePostEvent rt h body =
     (case Decode rt (MaxBytesReader body (2 ^ 20)) of
        Inl e \<Rightarrow> (httpError rt StatusBadRequest ''invalid JSON payload'' e, h)
      | Inr (evt, dec) \<Rightarrow>
          if More dec
            then (httpError rt StatusBadRequest ''unexpected extra JSON content''
                    (errorString ''multiple JSON values''), h)
          else respond rt h evt)"

section \<open>Routing and request histories\<close>

text \<open>
  \<^verbatim>\<open>Register\<close> binds the two patterns \<^verbatim>\<open>"POST /events"\<close> and
  \<^verbatim>\<open>"GET /health"\<close> to the two handlers. \<open>served\<close> is the handler after the
  requests of a history, each given by its pattern and its body, have been served in
  order.
\<close>

datatype route = POST_events | GET_health

definition Register :: "stdlib \<Rightarrow> route \<Rightarrow> EventHandler \<Rightarrow> string \<Rightarrow> Response \<times> EventHandler" where
  "Register rt pattern =
     (case pattern of POST_events \<Rightarrow> handlePostEvent rt | GET_health \<Rightarrow> handleHealth)"

fun served :: "stdlib \<Rightarrow> EventHandler \<Rightarrow> (route \<times> string) list \<Rightarrow> EventHandler" where
  "served rt h [] = h"
| "served rt h ((pattern, body) # requests) =
     served rt (snd (Register rt pattern h body)) requests"

section \<open>Kinds of request bodies\<close>

text \<open>
  Three properties of a request body, read as a whole by the scanner: no JSON value can
  be read from it (a syntax error, or the end of the body before or inside the value);
  its first value is an object with a key that names no field of \<^verbatim>\<open>model.Event\<close>;
  its first value is followed by anything but white space.
\<close>

definition whole :: "string \<Rightarrow> reader" where
  "whole body = \<lparr>pending = body, ending = AtEOF\<rparr>"

definition malformed :: "string \<Rightarrow> bool" where
  "malformed body =
     (case snd (readValue (whole body)) of
        Some (SyntaxError c context) \<Rightarrow> True
      | Some EOF \<Rightarrow> True
      | Some ErrUnexpectedEOF \<Rightarrow> True
      | _ \<Rightarrow> False)"

definition unknownKey :: "stdlib \<Rightarrow> string \<times> string \<Rightarrow> bool" where
  "unknownKey rt m =
     (case unquoteBytes (fst m) of
        None \<Rightarrow> False
      | Some key \<Rightarrow> lookupField rt (typeFields Event_tags) key = None)"

definition hasUnknownField :: "stdlib \<Rightarrow> string \<Rightarrow> bool" where
  "hasUnknownField rt body =
     (case readValue (whole body) of
        (n, Some e) \<Rightarrow> False
      | (n, None) \<Rightarrow>
          (case dropWhile isSpace (take n body) of
             [] \<Rightarrow> False
           | c # cs \<Rightarrow>
               c = CHR ''{'' \<and> list_ex (unknownKey rt) (members 0 False False True [] [] cs)))"

definition hasTrailingContent :: "string \<Rightarrow> bool" where
  "hasTrailingContent body =
     (case readValue (whole body) of
        (n, Some e) \<Rightarrow> False
      | (n, None) \<Rightarrow> nonSpace (drop n body))"

section \<open>Example requests\<close>

text \<open>
  A clock reading and stand-ins for the three library functions, and the inputs the
  examples below are evaluated at: the round-trip body of the specification, a body
  with two mebibytes of padding inside a string, a body over the limit that starts with
  a byte no JSON value starts with, a body that ends inside its object, one with a key
  that is no field, two objects one after the other, an object followed by a closing
  bracket and another object, and an event as \<^verbatim>\<open>Time.UnmarshalJSON\<close> makes it from
  a timestamp with the offset \<^verbatim>\<open>+02:00\<close>.
\<close>

definition example_stdlib :: stdlib where
  "example_stdlib =
     \<lparr>Now = \<lparr>sec = 63900000000, nsec = 0, loc = Local\<rparr>,
      Quote = (\<lambda>s. [CHR 0x22] @ s @ [CHR 0x22]),
      foldName = (\<lambda>s. s),
      Store = (\<lambda>f v evt. Inr (evt, None))\<rparr>"

definition roundtrip_body :: string where
  \<open>roundtrip_body = ''{"id":"e1","type":"click","source":"web"}''\<close>

definition padded_body :: string where
  \<open>padded_body = ''{"payload":"'' @ replicate (2 * 2 ^ 20) (CHR ''a'') @ ''"}''\<close>

definition truncated_body :: string where
  \<open>truncated_body = ''{"id":''\<close>

definition bogus_body :: string where
  \<open>bogus_body = ''{"bogus":true}''\<close>

definition concatenated_body :: string where
  \<open>concatenated_body = ''{}{}''\<close>

definition bracket_body :: string where
  \<open>bracket_body = ''{}]{}''\<close>

definition garbage_body :: string where
  "garbage_body = CHR ''x'' # replicate (2 ^ 20) (CHR ''a'')"


section \<open>Properties of validation\<close>

text \<open>
  What blank means on ASCII text: for a string of bytes below \<open>0x80\<close>,
  \<open>TrimSpace\<close> returns the empty string exactly when every byte is one of the six
  ASCII space characters.
\<close>

lemma trimSpaceStop_ascii:
  assumes "\<forall>c \<in> set s. byte c < 0x80"
  shows "trimSpaceStop s = [] \<longleftrightarrow> (\<forall>c \<in> set s. asciiSpace c)"
  using assms
proof (induction s rule: rev_induct)
  case Nil
  then show ?case by (simp add: trimSpaceStop.simps)
next
  case (snoc x xs)
  then show ?case
    by (subst trimSpaceStop.simps) auto
qed

lemma TrimSpace_ascii:
  assumes "\<forall>c \<in> set s. byte c < 0x80"
  shows "TrimSpace s = [] \<longleftrightarrow> (\<forall>c \<in> set s. asciiSpace c)"
  using assms
proof (induction s)
  case Nil
  then show ?case by simp
next
  case (Cons c s)
  then show ?case
    using trimSpaceStop_ascii [of "c # s"] by auto
qed

text \<open>
  C2. For every event whose id, type and source are each non-blank after trimming
  surrounding whitespace, \<open>Validate\<close> returns no error, and it does so whatever the
  timestamp is: the same event with any other timestamp \<open>t\<close>, zero or not, is
  accepted too.
\<close>

theorem Validate_nonblank_ok:
  assumes "TrimSpace (ID e) \<noteq> []" and "TrimSpace (Type e) \<noteq> []"
    and "TrimSpace (Source e) \<noteq> []"
  shows "Validate e = None \<and> Validate (e\<lparr>Timestamp := t\<rparr>) = None"
  using assms by (simp add: Validate_def)

theorem Validate_nonblank_ok_witness:
  "Validate \<lparr>ID = ''e1'', Type = ''click'', Source = ''web'',
             Timestamp = zeroTime, Payload = Nil\<rparr> = None
   \<and> Validate (\<lparr>ID = ''e1'', Type = ''click'', Source = ''web'',
             Timestamp = zeroTime, Payload = Nil\<rparr>
               \<lparr>Timestamp := \<lparr>sec = 63900000000, nsec = 5, loc = Local\<rparr>\<rparr>) = None"
  by (rule Validate_nonblank_ok)
     (simp_all add: asciiSpace_def byte_def trimSpaceStop.simps)

text \<open>
  C3. For every event in which at least one of id, type, source is empty or
  whitespace-only, \<open>Validate\<close> returns an error, and it is a single one, fixed by
  the event: the message of the first offending field in the order id, type, source.
\<close>

theorem Validate_blank_first_field:
  assumes "TrimSpace (ID e) = [] \<or> TrimSpace (Type e) = [] \<or> TrimSpace (Source e) = []"
  shows "Validate e =
           Some (errorString
             (if TrimSpace (ID e) = [] then ''ID is required.''
              else if TrimSpace (Type e) = [] then ''Type is required.''
              else ''Source is required.''))"
  using assms by (auto simp: Validate_def)

theorem Validate_blank_first_field_witness:
  "Validate \<lparr>ID = ''e1'', Type = [CHR 0x20, CHR 0x09], Source = [],
             Timestamp = zeroTime, Payload = Nil\<rparr>
     = Some (errorString ''Type is required.'')"
  using Validate_blank_first_field
          [of "\<lparr>ID = ''e1'', Type = [CHR 0x20, CHR 0x09], Source = [],
                 Timestamp = zeroTime, Payload = Nil\<rparr>"]
  by (simp add: asciiSpace_def byte_def trimSpaceStop.simps)

text \<open>
  C9. The result of \<open>Validate\<close> depends on the fields ID, Type and Source only: two
  events that agree on these three get the same result, whatever their timestamps and
  payloads are.
\<close>

theorem Validate_depends_on_three_fields:
  assumes "ID e1 = ID e2" and "Type e1 = Type e2" and "Source e1 = Source e2"
  shows "Validate e1 = Validate e2"
  using assms by (simp add: Validate_def)

theorem Validate_depends_on_three_fields_witness:
  "Validate \<lparr>ID = ''e1'', Type = '' '', Source = ''web'',
             Timestamp = zeroTime, Payload = Nil\<rparr>
   = Validate \<lparr>ID = ''e1'', Type = '' '', Source = ''web'',
             Timestamp = \<lparr>sec = 63900000000, nsec = 0, loc = FixedZone [] 7200\<rparr>,
             Payload = Map [(''k'', Slice [Number ''1'', String []])]\<rparr>"
  by (rule Validate_depends_on_three_fields) simp_all

section \<open>The decoder on the struct as declared\<close>

text \<open>
  All five fields of \<^verbatim>\<open>model.Event\<close> are tagged with the same JSON name, so
  encoding/json selects none of them: the struct has no JSON field. Hence the decoder
  never stores anything, every key of an object is an unknown field, and what comes out
  of a successful \<open>Decode\<close> is the zero event.
\<close>

lemma typeFields_Event_tags: "typeFields Event_tags = []"
  by (simp add: typeFields_def Event_tags_def)

lemma lookupField_Nil: "lookupField rt [] key = None"
  by (simp add: lookupField_def)

lemma saveError_Some: "saveError (Some e) x = Some e"
  by (simp add: saveError_def)

lemma object_saved:
  "object rt fs ms evt (Some e) = Inr (evt', x) \<Longrightarrow> x \<noteq> None"
  by (induction ms arbitrary: evt)
     (auto simp: saveError_Some split: option.splits sum.splits prod.splits)

lemma object_Nil_fields:
  "object rt [] ms evt saved = Inr (evt', x) \<Longrightarrow> evt' = evt"
  by (induction ms arbitrary: saved)
     (auto simp: lookupField_Nil split: option.splits)

lemma unmarshal_Nil_fields:
  "unmarshal rt [] text evt = Inr (evt', x) \<Longrightarrow> evt' = evt"
  by (auto simp: unmarshal_def dest: object_Nil_fields split: list.splits if_splits)

lemma Decode_zeroEvent: "Decode rt r = Inr (evt, dec) \<Longrightarrow> evt = zeroEvent"
  by (auto simp: Decode_def typeFields_Event_tags dest: unmarshal_Nil_fields
           split: prod.splits option.splits sum.splits)

lemma Validate_blank_ID: "ID evt = [] \<Longrightarrow> Validate evt = Some (errorString ''ID is required.'')"
  by (simp add: Validate_def)

lemma ID_defaultTimestamp: "ID (defaultTimestamp rt evt) = ID evt"
  by (simp add: defaultTimestamp_def)

lemma respond_zeroEvent:
  "respond rt h zeroEvent = (httpError rt StatusBadRequest ''validation failed'' (errorString ''ID is required.''), h)"
  by (simp add: respond_def Let_def Validate_blank_ID ID_defaultTimestamp zeroEvent_def)

text \<open>
  Consequently no request is accepted: whatever the body, the handler answers with
  \<open>httpError\<close> and status 400 and prints no log line.
\<close>

lemma handlePostEvent_rejects:
  "\<exists>message e. handlePostEvent rt h body = (httpError rt StatusBadRequest message e, h)"
proof (cases "Decode rt (MaxBytesReader body (2 ^ 20))")
  case (Inl e)
  then show ?thesis by (auto simp: handlePostEvent_def)
next
  case (Inr p)
  obtain evt dec where p: "p = (evt, dec)" by (cases p)
  with Inr have "evt = zeroEvent" by (auto dest: Decode_zeroEvent)
  with Inr p show ?thesis
    by (cases "More dec") (auto simp: handlePostEvent_def respond_zeroEvent)
qed

text \<open>
  The default of the timestamp leaves a timestamp that is not zero as it is, in whatever
  location it has.
\<close>

lemma defaultTimestamp_nonzero: "\<not> IsZero (Timestamp evt) \<Longrightarrow> defaultTimestamp rt evt = evt"
  by (simp add: defaultTimestamp_def)

section \<open>Properties of the handler\<close>

lemma MaxBytesReader_small:
  "length body \<le> n \<Longrightarrow> MaxBytesReader body n = \<lparr>pending = body, ending = AtEOF\<rparr>"
  by (simp add: MaxBytesReader_def)

lemma MaxBytesReader_whole: "length body \<le> n \<Longrightarrow> MaxBytesReader body n = whole body"
  by (simp add: MaxBytesReader_def whole_def)

lemma readValue_roundtrip:
  "readValue \<lparr>pending = roundtrip_body, ending = AtEOF\<rparr> = (41, None)"
  by code_simp

lemma members_roundtrip:
  "members 0 False False True [] [] (tl roundtrip_body) =
     [([CHR 0x22] @ ''id'' @ [CHR 0x22], [CHR 0x22] @ ''e1'' @ [CHR 0x22]),
      ([CHR 0x22] @ ''type'' @ [CHR 0x22], [CHR 0x22] @ ''click'' @ [CHR 0x22]),
      ([CHR 0x22] @ ''source'' @ [CHR 0x22], [CHR 0x22] @ ''web'' @ [CHR 0x22])]"
  by code_simp

lemma unquote_keys:
  "unquoteBytes ([CHR 0x22] @ ''id'' @ [CHR 0x22]) = Some ''id''"
  "unquoteBytes ([CHR 0x22] @ ''type'' @ [CHR 0x22]) = Some ''type''"
  "unquoteBytes ([CHR 0x22] @ ''source'' @ [CHR 0x22]) = Some ''source''"
  by code_simp+

lemma unmarshal_roundtrip:
  "unmarshal rt [] roundtrip_body zeroEvent = Inr (zeroEvent, Some (UnknownField ''id''))"
proof -
  have "dropWhile isSpace roundtrip_body = CHR ''{'' # tl roundtrip_body"
    by (simp add: roundtrip_body_def isSpace_def)
  then show ?thesis
    by (simp add: unmarshal_def members_roundtrip unquote_keys lookupField_Nil saveError_def
             del: append.simps)
qed

text \<open>
  C1. The specification expects the request body
  \<^verbatim>\<open>{"id":"e1","type":"click","source":"web"}\<close> to be accepted with status 202 and
  the body \<^verbatim>\<open>{"status":"accepted","id":"e1"}\<close>. The handler as written answers it
  with status 400, the error "invalid JSON payload" and the details of an unknown field
  \<open>id\<close>: the key \<open>id\<close> names no JSON field of the struct.
\<close>

theorem handlePostEvent_roundtrip:
  "handlePostEvent rt h roundtrip_body =
     (httpError rt StatusBadRequest ''invalid JSON payload'' (UnknownField ''id''), h)"
proof -
  have "length roundtrip_body \<le> 2 ^ 20"
    by (simp add: roundtrip_body_def)
  then have "MaxBytesReader roundtrip_body (2 ^ 20) = \<lparr>pending = roundtrip_body, ending = AtEOF\<rparr>"
    by (rule MaxBytesReader_small)
  moreover have "take 41 roundtrip_body = roundtrip_body"
    by (simp add: roundtrip_body_def)
  ultimately have "Decode rt (MaxBytesReader roundtrip_body (2 ^ 20)) = Inl (UnknownField ''id'')"
    by (simp add: Decode_def readValue_roundtrip typeFields_Event_tags unmarshal_roundtrip)
  then show ?thesis
    by (simp add: handlePostEvent_def)
qed

lemma scanBuf_append:
  "scanBuf s i xs = Refill s' \<Longrightarrow> scanBuf s i (xs @ ys) = scanBuf s' (i + length xs) ys"
proof (induction xs arbitrary: s i)
  case Nil
  then show ?case by simp
next
  case (Cons c xs)
  obtain op t where c: "call s c = (op, t)" by (cases "call s c")
  obtain op2 t2 where e: "stateEndValue t (CHR 0x20) = (op2, t2)"
    by (cases "stateEndValue t (CHR 0x20)")
  show ?case
    using Cons.prems Cons.IH [of t "Suc i"] Cons.IH [of t2 "Suc i"] c e
    by (cases op; cases op2) simp_all
qed

lemma scanBuf_in_string:
  "step s = InString \<Longrightarrow> scanBuf s i (replicate n (CHR ''a'')) = Refill s"
proof (induction n arbitrary: i)
  case 0
  then show ?case by simp
next
  case (Suc n)
  from Suc.prems have "call s (CHR ''a'') = (scanContinue, s)"
    by (simp add: call_def stateInString_def byte_def)
  with Suc show ?case by simp
qed

lemma scanBuf_padded_prefix:
  \<open>scanBuf reset 0 ''{"payload":"'' =
     Refill \<lparr>step = InString, parseState = [parseObjectValue], err = None, endTop = False\<rparr>\<close>
  by code_simp

lemma take_padded:
  \<open>take (2 ^ 20) padded_body = ''{"payload":"'' @ replicate (2 ^ 20 - 12) (CHR ''a'')\<close>
  by (simp add: padded_body_def)

lemma scanBuf_padded:
  "scanBuf reset 0 (take (2 ^ 20) padded_body) =
     Refill \<lparr>step = InString, parseState = [parseObjectValue], err = None, endTop = False\<rparr>"
  unfolding take_padded
  by (subst scanBuf_append [OF scanBuf_padded_prefix]) (simp add: scanBuf_in_string)

lemma length_padded: "2 ^ 20 < length padded_body"
  by (simp add: padded_body_def)

lemma limit_hit:
  assumes "2 ^ 20 < length body" and "scanBuf reset 0 (take (2 ^ 20) body) = Refill s"
  shows "handlePostEvent rt h body =
           (httpError rt StatusBadRequest ''invalid JSON payload'' MaxBytesError, h)"
  using assms
  by (simp add: handlePostEvent_def Decode_def readValue_def MaxBytesReader_def)

lemma scan_error_rejected:
  assumes "scanBuf reset 0 (take (2 ^ 20) body) = Return n (Some e)"
  shows "handlePostEvent rt h body =
           (httpError rt StatusBadRequest ''invalid JSON payload'' e, h)"
  using assms
  by (simp add: handlePostEvent_def Decode_def readValue_def MaxBytesReader_def)

lemma MaxBytesReader_prefix:
  assumes "n < length body" and "n < length body'" and "take n body' = take n body"
  shows "MaxBytesReader body' n = MaxBytesReader body n"
  using assms by (simp add: MaxBytesReader_def)

lemma too_large_status:
  "StatusCode (fst (handlePostEvent rt h body)) = StatusBadRequest
   \<and> StatusCode (fst (handlePostEvent rt h body)) \<noteq> StatusRequestEntityTooLarge
   \<and> snd (handlePostEvent rt h body) = h"
proof -
  obtain message e where
    "handlePostEvent rt h body = (httpError rt StatusBadRequest message e, h)"
    using handlePostEvent_rejects by blast
  then show ?thesis
    by (simp add: httpError_def StatusBadRequest_def StatusRequestEntityTooLarge_def)
qed

text \<open>
  C4, amended. The specification gives a body of more than 1 MiB the status 413; the
  handler has no such status. Every request whose body exceeds 1 MiB is rejected with
  status 400, the status of any decoding error, and without a log line. The decoder is
  handed the first \<open>2 ^ 20\<close> bytes and no more, so that the answer is the same for
  every body over the limit that starts with these bytes. When they end inside the
  first JSON value (the scanner has used them up and asks for more) the answer is the
  error "invalid JSON payload" with the details "http: request body too large"; when
  they hold a syntax error it is the same error with the details of the syntax error.
\<close>

theorem too_large_is_bad_request:
  assumes "2 ^ 20 < length body"
  shows "StatusCode (fst (handlePostEvent rt h body)) = StatusBadRequest
         \<and> StatusCode (fst (handlePostEvent rt h body)) \<noteq> StatusRequestEntityTooLarge
         \<and> snd (handlePostEvent rt h body) = h
         \<and> (\<forall>body'. 2 ^ 20 < length body' \<and> take (2 ^ 20) body' = take (2 ^ 20) body
               \<longrightarrow> handlePostEvent rt h body' = handlePostEvent rt h body)
         \<and> (\<forall>s. scanBuf reset 0 (take (2 ^ 20) body) = Refill s
               \<longrightarrow> handlePostEvent rt h body =
                     (httpError rt StatusBadRequest ''invalid JSON payload'' MaxBytesError, h))
         \<and> (\<forall>n e. scanBuf reset 0 (take (2 ^ 20) body) = Return n (Some e)
               \<longrightarrow> handlePostEvent rt h body =
                     (httpError rt StatusBadRequest ''invalid JSON payload'' e, h))
         \<and> Error_text rt MaxBytesError = ''http: request body too large''"
proof -
  have "handlePostEvent rt h body' = handlePostEvent rt h body"
    if "2 ^ 20 < length body'" and "take (2 ^ 20) body' = take (2 ^ 20) body" for body'
    using MaxBytesReader_prefix [OF assms that] by (simp add: handlePostEvent_def)
  moreover have "Error_text rt MaxBytesError = ''http: request body too large''"
    by (simp add: Error_text_def)
  ultimately show ?thesis
    using too_large_status [of rt h body] limit_hit [OF assms] scan_error_rejected
    by blast
qed

lemma scanBuf_garbage:
  "scanBuf reset 0 (take (2 ^ 20) garbage_body) =
     Return 0 (Some (SyntaxError (CHR ''x'') ''looking for beginning of value''))"
proof -
  have "take (2 ^ 20) garbage_body = CHR ''x'' # replicate (2 ^ 20 - 1) (CHR ''a'')"
    by (simp add: garbage_body_def take_Cons')
  then show ?thesis
    by (simp add: call_def reset_def stateBeginValue_def isSpace_def byte_def scan_error_def)
qed

lemma length_garbage: "2 ^ 20 < length garbage_body"
  by (simp add: garbage_body_def)

theorem too_large_is_bad_request_witness:
  "2 ^ 20 < length padded_body
   \<and> 2 ^ 20 < length (padded_body @ ''{}'')
   \<and> take (2 ^ 20) (padded_body @ ''{}'') = take (2 ^ 20) padded_body
   \<and> handlePostEvent example_stdlib \<lparr>Logger = []\<rparr> (padded_body @ ''{}'') =
       handlePostEvent example_stdlib \<lparr>Logger = []\<rparr> padded_body
   \<and> scanBuf reset 0 (take (2 ^ 20) padded_body) =
       Refill \<lparr>step = InString, parseState = [parseObjectValue], err = None, endTop = False\<rparr>
   \<and> handlePostEvent example_stdlib \<lparr>Logger = []\<rparr> padded_body =
       (\<lparr>Header = [(''Content-Type'', ''application/json'')], StatusCode = 400,
         Written = Encoded [(''details'', ''http: request body too large''),
                            (''error'', ''invalid JSON payload'')]\<rparr>, \<lparr>Logger = []\<rparr>)
   \<and> 2 ^ 20 < length garbage_body
   \<and> scanBuf reset 0 (take (2 ^ 20) garbage_body) =
       Return 0 (Some (SyntaxError (CHR ''x'') ''looking for beginning of value''))
   \<and> handlePostEvent example_stdlib \<lparr>Logger = []\<rparr> garbage_body =
       (httpError example_stdlib StatusBadRequest ''invalid JSON payload''
          (SyntaxError (CHR ''x'') ''looking for beginning of value''), \<lparr>Logger = []\<rparr>)"
proof -
  have 1: "2 ^ 20 < length (padded_body @ ''{}'')"
    using length_padded by simp
  have 2: "take (2 ^ 20) (padded_body @ ''{}'') = take (2 ^ 20) padded_body"
    using length_padded by simp
  note p = too_large_is_bad_request [OF length_padded, of example_stdlib "\<lparr>Logger = []\<rparr>"]
  note g = too_large_is_bad_request [OF length_garbage, of example_stdlib "\<lparr>Logger = []\<rparr>"]
  from p 1 2 have a: "handlePostEvent example_stdlib \<lparr>Logger = []\<rparr> (padded_body @ ''{}'') =
       handlePostEvent example_stdlib \<lparr>Logger = []\<rparr> padded_body"
    by blast
  from p scanBuf_padded have b: "handlePostEvent example_stdlib \<lparr>Logger = []\<rparr> padded_body =
       (httpError example_stdlib StatusBadRequest ''invalid JSON payload'' MaxBytesError, \<lparr>Logger = []\<rparr>)"
    by blast
  from p have t: "Error_text example_stdlib MaxBytesError = ''http: request body too large''"
    by blast
  from g scanBuf_garbage have c: "handlePostEvent example_stdlib \<lparr>Logger = []\<rparr> garbage_body =
       (httpError example_stdlib StatusBadRequest ''invalid JSON payload''
          (SyntaxError (CHR ''x'') ''looking for beginning of value''), \<lparr>Logger = []\<rparr>)"
    by blast
  from b t have b': "handlePostEvent example_stdlib \<lparr>Logger = []\<rparr> padded_body =
       (\<lparr>Header = [(''Content-Type'', ''application/json'')], StatusCode = 400,
         Written = Encoded [(''details'', ''http: request body too large''),
                            (''error'', ''invalid JSON payload'')]\<rparr>, \<lparr>Logger = []\<rparr>)"
    by (simp add: httpError_def StatusBadRequest_def)
  show ?thesis
    using length_padded 1 2 a scanBuf_padded b' length_garbage scanBuf_garbage c
    by (intro conjI)
qed

text \<open>
  C4 as the specification states it fails at a body with two mebibytes of padding: the
  body exceeds 1 MiB and the status of the answer is not 413.
\<close>

theorem too_large_counterexample:
  "2 ^ 20 < length padded_body
   \<and> StatusCode (fst (handlePostEvent example_stdlib \<lparr>Logger = []\<rparr> padded_body))
       \<noteq> StatusRequestEntityTooLarge"
  using limit_hit [OF length_padded scanBuf_padded, of example_stdlib "\<lparr>Logger = []\<rparr>"] length_padded
  by (simp add: httpError_def StatusBadRequest_def StatusRequestEntityTooLarge_def)

lemma object_unknown:
  assumes "list_ex (\<lambda>m. case unquoteBytes (fst m) of None \<Rightarrow> False
                        | Some key \<Rightarrow> lookupField rt fs key = None) ms"
  shows "object rt fs ms evt saved \<noteq> Inr (evt', None)"
  using assms
proof (induction ms arbitrary: evt saved)
  case Nil
  then show ?case by simp
next
  case (Cons m ms)
  obtain item val where m: "m = (item, val)" by (cases m)
  show ?case
  proof (cases "unquoteBytes item")
    case None
    then show ?thesis by (simp add: m)
  next
    case (Some key)
    show ?thesis
    proof (cases "lookupField rt fs key")
      case None
      have "saveError saved (Some (UnknownField key)) \<noteq> None"
        by (simp add: saveError_def split: option.splits)
      then obtain e where "saveError saved (Some (UnknownField key)) = Some e"
        by blast
      then show ?thesis
        using object_saved [of rt fs ms evt e evt' None] Some None
        by (auto simp: m)
    next
      case f: (Some f)
      with Cons.prems Some have rest: "list_ex (\<lambda>m. case unquoteBytes (fst m) of None \<Rightarrow> False
                        | Some key \<Rightarrow> lookupField rt fs key = None) ms"
        by (simp add: m)
      show ?thesis
        using Cons.IH [OF rest] Some f
        by (auto simp: m split: sum.splits)
    qed
  qed
qed

text \<open>
  On a body within the limit, a malformed body and an unknown field make \<open>Decode\<close>
  fail, whatever the fields of the struct are.
\<close>

lemma Decode_malformed:
  "length body \<le> 2 ^ 20 \<Longrightarrow> malformed body
     \<Longrightarrow> \<exists>e. Decode rt (MaxBytesReader body (2 ^ 20)) = Inl e"
  by (auto simp: malformed_def Decode_def MaxBytesReader_whole
           split: prod.splits option.splits error.splits)

lemma Decode_unknown:
  assumes small: "length body \<le> 2 ^ 20" and h: "hasUnknownField rt body"
  shows "\<exists>e. Decode rt (MaxBytesReader body (2 ^ 20)) = Inl e"
proof -
  obtain n e where rv: "readValue (whole body) = (n, e)"
    by (cases "readValue (whole body)")
  with h have e: "e = None"
    by (cases e) (simp_all add: hasUnknownField_def)
  from h rv e obtain cs where
    d: "dropWhile isSpace (take n body) = CHR ''{'' # cs"
    and u: "list_ex (unknownKey rt) (members 0 False False True [] [] cs)"
    by (auto simp: hasUnknownField_def split: list.splits)
  from u have "object rt (typeFields Event_tags) (members 0 False False True [] [] cs) zeroEvent None
                 \<noteq> Inr (evt', None)" for evt'
    by (intro object_unknown) (simp add: unknownKey_def [abs_def])
  then show ?thesis
    using rv e d small
    by (auto simp: Decode_def unmarshal_def MaxBytesReader_whole whole_def
             split: sum.splits option.splits prod.splits)
qed

text \<open>
  C5. For every request body that is malformed JSON, or whose object has an unknown
  field, or that has anything but white space after its first value, the handler
  answers with status 400; it does not answer with the acceptance and prints no log
  line.
\<close>

theorem decode_errors_rejected:
  assumes "malformed body \<or> hasUnknownField rt body \<or> hasTrailingContent body"
  shows "StatusCode (fst (handlePostEvent rt h body)) = StatusBadRequest
         \<and> StatusCode (fst (handlePostEvent rt h body)) \<noteq> StatusAccepted
         \<and> snd (handlePostEvent rt h body) = h"
proof (cases "Decode rt (MaxBytesReader body (2 ^ 20))")
  case (Inl e)
  then show ?thesis
    by (simp add: handlePostEvent_def httpError_def StatusBadRequest_def StatusAccepted_def)
next
  case (Inr p)
  obtain evt dec where p: "p = (evt, dec)" by (cases p)
  show ?thesis
  proof (cases "More dec")
    case True
    with Inr p show ?thesis
      by (simp add: handlePostEvent_def httpError_def StatusBadRequest_def StatusAccepted_def)
  next
    case False
    from Inr p have "evt = zeroEvent" by (auto dest: Decode_zeroEvent)
    with Inr p False show ?thesis
      by (simp add: handlePostEvent_def respond_zeroEvent httpError_def StatusBadRequest_def
            StatusAccepted_def)
  qed
qed

lemma readValue_examples:
  "readValue (whole truncated_body) = (0, Some ErrUnexpectedEOF)"
  "readValue (whole bogus_body) = (14, None)"
  "readValue (whole concatenated_body) = (2, None)"
  "readValue (whole bracket_body) = (2, None)"
  "readValue (whole ''{}'') = (2, None)"
  by code_simp+

lemma malformed_truncated: "malformed truncated_body"
  by (simp add: malformed_def readValue_examples)

lemma members_bogus:
  "members 0 False False True [] [] (tl bogus_body) = [([CHR 0x22] @ ''bogus'' @ [CHR 0x22], ''true'')]"
  by code_simp

lemma unquote_bogus: "unquoteBytes ([CHR 0x22] @ ''bogus'' @ [CHR 0x22]) = Some ''bogus''"
  by code_simp

lemma unknown_bogus: "hasUnknownField rt bogus_body"
proof -
  have "dropWhile isSpace (take 14 bogus_body) = CHR ''{'' # tl bogus_body"
    by (simp add: bogus_body_def isSpace_def)
  then show ?thesis
    by (simp add: hasUnknownField_def readValue_examples members_bogus
          unknownKey_def unquote_bogus typeFields_Event_tags lookupField_Nil del: append.simps)
qed

lemma trailing_concatenated: "hasTrailingContent concatenated_body"
  by (simp add: hasTrailingContent_def readValue_examples)
     (simp add: concatenated_body_def nonSpace_def isSpace_def)

lemma trailing_bracket: "hasTrailingContent bracket_body"
  by (simp add: hasTrailingContent_def readValue_examples)
     (simp add: bracket_body_def nonSpace_def isSpace_def)

theorem decode_errors_rejected_witness:
  "(malformed truncated_body \<and> hasUnknownField example_stdlib bogus_body
      \<and> hasTrailingContent concatenated_body \<and> hasTrailingContent bracket_body)
   \<and> StatusCode (fst (handlePostEvent example_stdlib \<lparr>Logger = []\<rparr> truncated_body)) = StatusBadRequest
   \<and> StatusCode (fst (handlePostEvent example_stdlib \<lparr>Logger = []\<rparr> bogus_body)) = StatusBadRequest
   \<and> StatusCode (fst (handlePostEvent example_stdlib \<lparr>Logger = []\<rparr> concatenated_body)) = StatusBadRequest
   \<and> StatusCode (fst (handlePostEvent example_stdlib \<lparr>Logger = []\<rparr> bracket_body)) = StatusBadRequest"
  using decode_errors_rejected [of truncated_body example_stdlib "\<lparr>Logger = []\<rparr>"]
        decode_errors_rejected [of bogus_body example_stdlib "\<lparr>Logger = []\<rparr>"]
        decode_errors_rejected [of concatenated_body example_stdlib "\<lparr>Logger = []\<rparr>"]
        decode_errors_rejected [of bracket_body example_stdlib "\<lparr>Logger = []\<rparr>"]
        malformed_truncated unknown_bogus [of example_stdlib] trailing_concatenated trailing_bracket
  by blast







text \<open>
  C7. Every answer of the handler other than the acceptance is made by \<open>httpError\<close>
  with status 400, whose body is the JSON object of the human message under
  \<open>error\<close> and the text of the cause under \<open>details\<close>; no answer has a status of
  500 or more.
\<close>

theorem rejection_shape:
  "(StatusCode (fst (handlePostEvent rt h body)) = StatusAccepted
    \<or> (\<exists>message e. fst (handlePostEvent rt h body) = httpError rt StatusBadRequest message e))
   \<and> StatusCode (fst (handlePostEvent rt h body)) < 500
   \<and> Written (httpError rt status message e) = Encoded [(''details'', Error_text rt e), (''error'', message)]
   \<and> StatusCode (httpError rt status message e) = status"
  by (auto simp: handlePostEvent_def respond_def Let_def httpError_def StatusAccepted_def StatusBadRequest_def
           split: sum.splits prod.splits option.splits)

text \<open>
  C8. After any history of requests, the health handler answers any request with
  status 200 and the body \<open>ok\<close>, whatever the request carries, and leaves the handler
  as it was.
\<close>

theorem health_ok:
  "handleHealth (served rt h requests) body =
     (\<lparr>Header = [], StatusCode = StatusOK, Written = Bytes ''ok''\<rparr>, served rt h requests)"
  by (simp add: handleHealth_def)

text \<open>
  C10. For every event that reaches the part of the handler after decoding with an id, a
  type and a source that are not blank, validation passes, and the acceptance and the
  log line carry the id as it is in the event, untrimmed: an id \<open>'' e1 ''\<close> is
  echoed with its spaces.
\<close>

theorem respond_echoes_id:
  assumes "TrimSpace (ID evt) \<noteq> []" and "TrimSpace (Type evt) \<noteq> []" and "TrimSpace (Source evt) \<noteq> []"
  shows "Validate (defaultTimestamp rt evt) = None
         \<and> StatusCode (fst (respond rt h evt)) = StatusAccepted
         \<and> Written (fst (respond rt h evt)) = Encoded [(''id'', ID evt), (''status'', ''accepted'')]
         \<and> Logger (snd (respond rt h evt)) =
               Logger h @
                 [Printf ''event accepted: id=%s type=%s source=%s ts=%s''
                    [Str (ID evt), Str (Type evt), Str (Source evt),
                     RFC3339 (Timestamp (defaultTimestamp rt evt))]]"
proof -
  have v: "Validate (defaultTimestamp rt evt) = None"
    using assms by (simp add: Validate_def defaultTimestamp_def)
  moreover have "ID (defaultTimestamp rt evt) = ID evt" "Type (defaultTimestamp rt evt) = Type evt"
    "Source (defaultTimestamp rt evt) = Source evt"
    by (simp_all add: defaultTimestamp_def)
  ultimately show ?thesis
    by (simp add: respond_def Let_def)
qed

theorem respond_echoes_id_witness:
  "Validate (defaultTimestamp example_stdlib
       \<lparr>ID = '' e1 '', Type = ''click'', Source = ''web'', Timestamp = zeroTime, Payload = Nil\<rparr>) = None
   \<and> StatusCode (fst (respond example_stdlib \<lparr>Logger = []\<rparr>
       \<lparr>ID = '' e1 '', Type = ''click'', Source = ''web'', Timestamp = zeroTime, Payload = Nil\<rparr>)) = StatusAccepted
   \<and> Written (fst (respond example_stdlib \<lparr>Logger = []\<rparr>
       \<lparr>ID = '' e1 '', Type = ''click'', Source = ''web'', Timestamp = zeroTime, Payload = Nil\<rparr>))
       = Encoded [(''id'', '' e1 ''), (''status'', ''accepted'')]
   \<and> TrimSpace '' e1 '' = ''e1''"
proof -
  let ?evt = "\<lparr>ID = '' e1 '', Type = ''click'', Source = ''web'', Timestamp = zeroTime, Payload = Nil\<rparr>"
  have t: "TrimSpace '' e1 '' = ''e1''"
    by (simp add: asciiSpace_def byte_def trimSpaceStop.simps)
  have 1: "TrimSpace (ID ?evt) \<noteq> []"
    by (simp add: asciiSpace_def byte_def trimSpaceStop.simps)
  have 2: "TrimSpace (Type ?evt) \<noteq> []"
    by (simp add: asciiSpace_def byte_def trimSpaceStop.simps)
  have 3: "TrimSpace (Source ?evt) \<noteq> []"
    by (simp add: asciiSpace_def byte_def trimSpaceStop.simps)
  from respond_echoes_id [OF 1 2 3, of example_stdlib "\<lparr>Logger = []\<rparr>"] t
  show ?thesis by simp
qed

end
